theory Spec2Isabelle
  imports Main "HOL-Library.Sublist"
begin

section \<open>Go values used by the triage service\<close>

text \<open>
  A Go \<open>string\<close> is a sequence of bytes; \<^typ>\<open>string\<close> (a list of 8-bit characters) is
  that sequence, and \<^const>\<open>length\<close> is Go's \<open>len\<close>. Go's \<open>int\<close> is modelled by
  \<^typ>\<open>int\<close>: every index computed below is bounded by the length of a string.
\<close>

text \<open>
  A run-time panic of the Go program is a value of the model: slicing outside the bounds
  of a string and dereferencing a nil pointer are the two that the source can raise.
\<close>

datatype panic = SliceBoundsOutOfRange | NilPointerDereference

datatype 'a outcome = Returned 'a | Panic panic

text \<open>
  The dynamic types an \<open>any\<close> holds in a tool's argument map (those that decoding JSON
  into \<open>map[string]any\<close> produces). The executors only ask whether a value is a
  \<open>string\<close> or a \<open>[]any\<close>; numbers are kept as integers, since no code looks at them.
\<close>

datatype go_any =
    AnyNil
  | AnyBool bool
  | AnyNumber int
  | AnyString string
  | AnySlice "go_any list"
  | AnyMap "(string \<times> go_any) list"

type_synonym args = "string \<rightharpoonup> go_any"

text \<open>The type assertions \<open>v.(string)\<close> and \<open>v.([]any)\<close> on a map lookup: a missing key
  gives the nil interface, on which every assertion fails.\<close>

fun assert_string :: "go_any option \<Rightarrow> string option" where
  "assert_string (Some (AnyString s)) = Some s"
| "assert_string _ = None"

fun assert_slice :: "go_any option \<Rightarrow> go_any list option" where
  "assert_slice (Some (AnySlice xs)) = Some xs"
| "assert_slice _ = None"

section \<open>The functions of package \<open>strings\<close> and \<open>fmt\<close> that the source calls\<close>

text \<open>The slice expression \<open>s[lo:hi]\<close>; it panics unless \<open>0 \<le> lo \<le> hi \<le> len(s)\<close>.\<close>

definition slice :: "string \<Rightarrow> int \<Rightarrow> int \<Rightarrow> string outcome" where
  "slice s lo hi =
     (if 0 \<le> lo \<and> lo \<le> hi \<and> hi \<le> int (length s)
      then Returned (take (nat hi - nat lo) (drop (nat lo) s))
      else Panic SliceBoundsOutOfRange)"

text \<open>\<open>strings.Index(s, substr)\<close>: the index of the first instance of \<open>substr\<close> in \<open>s\<close>,
  or \<open>-1\<close> when there is none.\<close>

fun strings_Index :: "string \<Rightarrow> string \<Rightarrow> int" where
  "strings_Index [] sub = (if sub = [] then 0 else - 1)"
| "strings_Index (c # cs) sub =
     (if prefix sub (c # cs) then 0
      else (let r = strings_Index cs sub in if r < 0 then - 1 else r + 1))"

text \<open>\<open>strings.Contains(s, substr)\<close> is \<open>Index(s, substr) >= 0\<close>.\<close>

definition strings_Contains :: "string \<Rightarrow> string \<Rightarrow> bool" where
  "strings_Contains s sub = (0 \<le> strings_Index s sub)"

text \<open>\<open>strings.IndexAny(s, chars)\<close> for a set \<open>chars\<close> of ASCII characters: the index of
  the first byte of \<open>s\<close> that is one of them, or \<open>-1\<close>. (A byte of a multi-byte or invalid
  sequence is never an ASCII character, so the search by bytes is the search by code
  points.)\<close>

fun strings_IndexAny :: "string \<Rightarrow> string \<Rightarrow> int" where
  "strings_IndexAny [] chars = - 1"
| "strings_IndexAny (c # cs) chars =
     (if c \<in> set chars then 0
      else (let r = strings_IndexAny cs chars in if r < 0 then - 1 else r + 1))"

text \<open>
  \<open>strings.TrimSpace(s)\<close> removes all leading and trailing white space, as defined by
  Unicode. \<open>unicode.IsSpace\<close> holds of the six ASCII characters tab, line feed, vertical
  tab, form feed, carriage return and space, of U+0085 and U+00A0, and of the code points
  with the property \<open>White_Space\<close>: U+1680, U+2000 to U+200A, U+2028, U+2029, U+202F,
  U+205F and U+3000. The list holds their UTF-8 encodings; a string starts (ends) with a
  white-space code point exactly when one of them is a prefix (suffix) of it.
\<close>

definition whiteSpace :: "string list" where
  "whiteSpace =
     [[CHR 0x09], [CHR 0x0A], [CHR 0x0B], [CHR 0x0C], [CHR 0x0D], [CHR 0x20],
      [CHR 0xC2, CHR 0x85], [CHR 0xC2, CHR 0xA0],
      [CHR 0xE1, CHR 0x9A, CHR 0x80],
      [CHR 0xE2, CHR 0x80, CHR 0x80], [CHR 0xE2, CHR 0x80, CHR 0x81],
      [CHR 0xE2, CHR 0x80, CHR 0x82], [CHR 0xE2, CHR 0x80, CHR 0x83],
      [CHR 0xE2, CHR 0x80, CHR 0x84], [CHR 0xE2, CHR 0x80, CHR 0x85],
      [CHR 0xE2, CHR 0x80, CHR 0x86], [CHR 0xE2, CHR 0x80, CHR 0x87],
      [CHR 0xE2, CHR 0x80, CHR 0x88], [CHR 0xE2, CHR 0x80, CHR 0x89],
      [CHR 0xE2, CHR 0x80, CHR 0x8A],
      [CHR 0xE2, CHR 0x80, CHR 0xA8], [CHR 0xE2, CHR 0x80, CHR 0xA9],
      [CHR 0xE2, CHR 0x80, CHR 0xAF], [CHR 0xE2, CHR 0x81, CHR 0x9F],
      [CHR 0xE3, CHR 0x80, CHR 0x80]]"

text \<open>The number of bytes of the white-space code point that \<open>s\<close> starts with (ends
  with), and \<open>0\<close> when it starts (ends) with none.\<close>

definition leadingSpace :: "string \<Rightarrow> nat" where
  "leadingSpace s = (case find (\<lambda>w. prefix w s) whiteSpace of None \<Rightarrow> 0 | Some w \<Rightarrow> length w)"

definition trailingSpace :: "string \<Rightarrow> nat" where
  "trailingSpace s = (case find (\<lambda>w. suffix w s) whiteSpace of None \<Rightarrow> 0 | Some w \<Rightarrow> length w)"

function TrimLeftSpace :: "string \<Rightarrow> string" where
  "TrimLeftSpace s =
     (if leadingSpace s = 0 then s else TrimLeftSpace (drop (leadingSpace s) s))"
  by pat_completeness auto
termination
proof (relation "measure length")
  show "wf (measure length)" by simp
next
  fix s :: string
  assume h: "leadingSpace s \<noteq> 0"
  have "leadingSpace [] = 0" by (simp add: leadingSpace_def whiteSpace_def)
  with h have "s \<noteq> []" by auto
  with h show "(drop (leadingSpace s) s, s) \<in> measure length" by simp
qed

function TrimRightSpace :: "string \<Rightarrow> string" where
  "TrimRightSpace s =
     (if trailingSpace s = 0 then s else TrimRightSpace (take (length s - trailingSpace s) s))"
  by pat_completeness auto
termination
proof (relation "measure length")
  show "wf (measure length)" by simp
next
  fix s :: string
  assume h: "trailingSpace s \<noteq> 0"
  have "trailingSpace [] = 0" by (simp add: trailingSpace_def whiteSpace_def)
  with h have "s \<noteq> []" by auto
  with h show "(take (length s - trailingSpace s) s, s) \<in> measure length" by simp
qed

definition strings_TrimSpace :: "string \<Rightarrow> string" where
  "strings_TrimSpace s = TrimRightSpace (TrimLeftSpace s)"

text \<open>\<open>strings.Join(elems, sep)\<close>.\<close>

fun strings_Join :: "string list \<Rightarrow> string \<Rightarrow> string" where
  "strings_Join [] sep = []"
| "strings_Join [x] sep = x"
| "strings_Join (x # y # ys) sep = x @ sep @ strings_Join (y # ys) sep"

text \<open>The verb \<open>%d\<close> of \<open>fmt.Sprintf\<close> on a length: its decimal digits.\<close>

fun digits :: "nat \<Rightarrow> string" where
  "digits n =
     (if n < 10 then [char_of (48 + n)]
      else digits (n div 10) @ [char_of (48 + n mod 10)])"

section \<open>The issue-tracker gateway\<close>

text \<open>
  \<open>github.Issue\<close> and \<open>github.IssueRequest\<close>, with the fields the source reads and
  writes. The fields of an \<open>Issue\<close> are pointers, which may be nil; the source builds
  every \<open>IssueRequest\<close> from the addresses of local variables, which are never nil.
\<close>

record Issue =
  Issue_Title :: "string option"
  Issue_HTMLURL :: "string option"

record IssueRequest =
  Title :: string
  Body :: string
  Labels :: "string list"

text \<open>A Go \<open>error\<close> is modelled by its message, the text of \<open>err.Error()\<close>.\<close>

type_synonym error = string

text \<open>
  The package-level variables \<open>ghOwner\<close>, \<open>ghRepo\<close> and \<open>ghClient\<close>, set once by
  \<open>main\<close>. Of the client, the model keeps the two operations the tools call:
  \<open>ghClient.Search.Issues\<close>, from the query to an error or the list \<open>issues.Issues\<close>, and
  \<open>ghClient.Issues.Create\<close>, from owner, repository and request to an error or the issue
  created.
\<close>

record globals =
  ghOwner :: string
  ghRepo :: string
  Search_Issues :: "string \<Rightarrow> error + Issue list"
  Issues_Create :: "string \<Rightarrow> string \<Rightarrow> IssueRequest \<Rightarrow> error + Issue"

text \<open>The calls a tool executor makes on the gateway are recorded, in order.\<close>

datatype gh_call = Search string | Create string string IssueRequest

type_synonym tool_result = "gh_call list \<times> (string \<times> error option) outcome"

section \<open>The tool executors\<close>

text \<open>An executor returns the calls it made on the gateway and, unless it panics, the pair
  of Go results: a text and an error or nil. The lines it writes with \<open>log.Printf\<close> go
  to the log of the process only, and are left out, here and in the handler.\<close>

text \<open>The loop of \<open>searchGithubIssues\<close> over \<open>issues.Issues\<close>: each line dereferences
  the title and the URL of the issue, and is appended to \<open>results\<close>.\<close>

fun formatIssues :: "string list \<Rightarrow> Issue list \<Rightarrow> string list outcome" where
  "formatIssues results [] = Returned results"
| "formatIssues results (issue # issues) =
     (case Issue_Title issue of
        None \<Rightarrow> Panic NilPointerDereference
      | Some title \<Rightarrow>
          (case Issue_HTMLURL issue of
             None \<Rightarrow> Panic NilPointerDereference
           | Some url \<Rightarrow>
               formatIssues (results @ [''- Title: \"'' @ title @ ''\", URL: '' @ url]) issues))"

definition searchGithubIssues :: "globals \<Rightarrow> args \<Rightarrow> tool_result" where
  "searchGithubIssues g args =
     (case assert_string (args ''query'') of
        None \<Rightarrow>
          ([], Returned ('''', Some ''missing or invalid 'query' argument for search_github_issues''))
      | Some query \<Rightarrow>
          (let searchQuery =
                 query @ '' is:issue in:title,body repo:'' @ ghOwner g @ ''/'' @ ghRepo g
           in case Search_Issues g searchQuery of
                Inl err \<Rightarrow>
                  ([Search searchQuery],
                   Returned (''Error searching GitHub issues: '' @ err, Some err))
              | Inr issues \<Rightarrow>
                  ([Search searchQuery],
                   if length issues = 0
                   then Returned (''No existing issues found for this query.'', None)
                   else (case formatIssues [] issues of
                           Panic p \<Rightarrow> Panic p
                         | Returned results \<Rightarrow>
                             Returned
                               (''Found '' @ digits (length issues) @ '' existing issues:\<newline>''
                                  @ strings_Join results ''\<newline>'',
                                None)))))"

text \<open>The loop of \<open>createGithubIssues\<close> over \<open>labelsRaw\<close>: an entry that is a string is
  appended to \<open>labels\<close>, any other entry is skipped.\<close>

fun collectLabels :: "string list \<Rightarrow> go_any list \<Rightarrow> string list" where
  "collectLabels labels [] = labels"
| "collectLabels labels (AnyString s # labelsRaw) = collectLabels (labels @ [s]) labelsRaw"
| "collectLabels labels (_ # labelsRaw) = collectLabels labels labelsRaw"

definition createGithubIssues :: "globals \<Rightarrow> args \<Rightarrow> tool_result" where
  "createGithubIssues g args =
     (case assert_string (args ''title'') of
        None \<Rightarrow>
          ([], Returned ('''', Some ''missing or invalid 'title' argument for create_github_issue''))
      | Some title \<Rightarrow>
          (case assert_string (args ''body'') of
             None \<Rightarrow>
               ([], Returned ('''', Some ''missing or invalid 'body' argument for create_github_issue''))
           | Some body \<Rightarrow>
               (let labelsRaw = (case assert_slice (args ''labels'') of None \<Rightarrow> [] | Some xs \<Rightarrow> xs);
                    labels = collectLabels [] labelsRaw;
                    newIssue = \<lparr>Title = title, Body = body, Labels = labels\<rparr>
                in case Issues_Create g (ghOwner g) (ghRepo g) newIssue of
                     Inl err \<Rightarrow>
                       ([Create (ghOwner g) (ghRepo g) newIssue],
                        Returned (''Error creating GitHub issue: '' @ err, Some err))
                   | Inr issue \<Rightarrow>
                       ([Create (ghOwner g) (ghRepo g) newIssue],
                        (case Issue_Title issue of
                           None \<Rightarrow> Panic NilPointerDereference
                         | Some t \<Rightarrow>
                             (case Issue_HTMLURL issue of
                                None \<Rightarrow> Panic NilPointerDereference
                              | Some url \<Rightarrow>
                                  Returned
                                    (''GitHub issue created successfully! Title: \"'' @ t
                                       @ ''\", URL: '' @ url,
                                     None)))))))"

text \<open>The values that the declaration of the tool \<open>create_github_issue\<close> enumerates for
  its parameter \<open>labels\<close>.\<close>

definition labelsEnum :: "string list" where
  "labelsEnum = [''bug'', ''llm created'', ''enhancement'']"

section \<open>The HTTP handler\<close>

record ErrorLogRequest =
  ErrorLog :: string

record APIResponse =
  Status :: string
  Message :: string
  IssueURL :: string

text \<open>The JSON object that \<open>encoding/json\<close> writes for an \<open>APIResponse\<close>, as the list of
  its members: the tag \<open>omitempty\<close> leaves \<open>issue_url\<close> out when the field is empty.\<close>

definition json_Encode :: "APIResponse \<Rightarrow> (string \<times> string) list" where
  "json_Encode resp =
     [(''status'', Status resp), (''message'', Message resp)]
       @ (if IssueURL resp = [] then [] else [(''issue_url'', IssueURL resp)])"

text \<open>What the handler has written to its \<open>http.ResponseWriter\<close> when it returns.\<close>

datatype payload = PlainText string | JSONObject "(string \<times> string) list"

record response =
  statusCode :: nat
  contentType :: string
  payload :: payload

text \<open>\<open>http.Error(w, msg, code)\<close> replies with the message and a line feed, as plain
  text.\<close>

definition http_Error :: "string \<Rightarrow> nat \<Rightarrow> response" where
  "http_Error msg code =
     \<lparr>statusCode = code, contentType = ''text/plain; charset=utf-8'',
      payload = PlainText (msg @ ''\<newline>'')\<rparr>"

text \<open>
  Lines 145 to 151 of the handler, which lines 154 to 160 repeat word for word: find
  \<open>"URL: "\<close> in the final output and store what follows it, up to the next space or line
  feed, in \<open>resp.IssueURL\<close>.
\<close>

definition scanURL :: "string \<Rightarrow> APIResponse \<Rightarrow> APIResponse outcome" where
  "scanURL finalOutput resp =
     (let idx = strings_Index finalOutput ''URL: '' in
      if idx \<noteq> - 1 then
        (case slice finalOutput (idx + 5) (int (length finalOutput)) of
           Panic p \<Rightarrow> Panic p
         | Returned rest \<Rightarrow>
             (let endIdx = strings_IndexAny rest '' \<newline>'' in
              if endIdx \<noteq> - 1 then
                (case slice finalOutput (idx + 5) (idx + 5 + endIdx) of
                   Panic p \<Rightarrow> Panic p
                 | Returned url \<Rightarrow> Returned (resp\<lparr>IssueURL := strings_TrimSpace url\<rparr>))
              else Returned (resp\<lparr>IssueURL := strings_TrimSpace rest\<rparr>)))
      else Returned resp)"

text \<open>Lines 138 to 161: the response built from the final output of the pipeline.\<close>

definition synthesize :: "string \<Rightarrow> APIResponse outcome" where
  "synthesize finalOutput =
     (let resp = \<lparr>Status = ''success'', Message = finalOutput, IssueURL = ''''\<rparr> in
      if strings_Contains finalOutput ''GitHub issue created successfully!''
      then scanURL finalOutput resp
      else if strings_Contains finalOutput ''Found existing issues:''
      then scanURL finalOutput resp
      else Returned resp)"

text \<open>
  \<open>llmPipeline.Run(ctx, input, runID, &buf)\<close> belongs to the library \<open>swarmlet\<close>: it is
  a parameter of the handler, a function from the input and the run identifier to the
  gateway calls that the tools made during the run and to an error or the final output.
  Being a function, it stands for an engine that answers. The body of the request enters
  the model as the result of \<open>json.NewDecoder(r.Body).Decode(&req)\<close>: an error or the
  request decoded.
\<close>

type_synonym pipeline = "string \<Rightarrow> string \<Rightarrow> gh_call list \<times> (error + string)"

datatype event = PipelineRun string string | Gateway gh_call

text \<open>The handler returns the events of the request, in order, and either the response
  written or the panic that ended it (which \<open>net/http\<close> answers by dropping the
  connection, with no response).\<close>

definition handleProcessError ::
  "pipeline \<Rightarrow> error + ErrorLogRequest \<Rightarrow> event list \<times> response outcome" where
  "handleProcessError Run decoded =
     (case decoded of
        Inl err \<Rightarrow> ([], Returned (http_Error (''Invalid request body: '' @ err) 400))
      | Inr req \<Rightarrow>
          if ErrorLog req = '''' then ([], Returned (http_Error ''Error log cannot be empty'' 400))
          else
            (case slice (ErrorLog req) 0 10 of
               Panic p \<Rightarrow> ([], Panic p)
             | Returned prefix10 \<Rightarrow>
                 (case Run (ErrorLog req) (''run-id'' @ prefix10) of
                    (calls, Inl err) \<Rightarrow>
                      (PipelineRun (ErrorLog req) (''run-id'' @ prefix10) # map Gateway calls,
                       Returned (http_Error (''Agent failed to process error: '' @ err) 500))
                  | (calls, Inr finalOutput) \<Rightarrow>
                      (PipelineRun (ErrorLog req) (''run-id'' @ prefix10) # map Gateway calls,
                       (case synthesize finalOutput of
                          Panic p \<Rightarrow> Panic p
                        | Returned resp \<Rightarrow>
                            Returned
                              \<lparr>statusCode = 200, contentType = ''application/json'',
                               payload = JSONObject (json_Encode resp)\<rparr>)))))"

section \<open>Scenarios\<close>

text \<open>
  Two gateways for concrete runs. The first finds no issue and creates one at
  \<open>https://x/42\<close>, under the title requested; the second finds one issue there.
\<close>

definition mockNoMatch :: globals where
  "mockNoMatch =
     \<lparr>ghOwner = ''acme'', ghRepo = ''app'',
      Search_Issues = (\<lambda>query. Inr []),
      Issues_Create = (\<lambda>owner repo r.
        Inr \<lparr>Issue_Title = Some (Title r), Issue_HTMLURL = Some ''https://x/42''\<rparr>)\<rparr>"

definition mockOneMatch :: globals where
  "mockOneMatch =
     mockNoMatch\<lparr>Search_Issues := (\<lambda>query.
       Inr [\<lparr>Issue_Title = Some ''Bug: nil pointer in db'',
            Issue_HTMLURL = Some ''https://x/42''\<rparr>])\<rparr>"

text \<open>The text the search tool returns for that one match, and a text the create tool
  returns.\<close>

definition oneMatchAnswer :: string where
  "oneMatchAnswer =
     ''Found 1 existing issues:\<newline>- Title: \"Bug: nil pointer in db\", URL: https://x/42''"

definition createdAnswer :: string where
  "createdAnswer = ''GitHub issue created successfully! Title: \"X\", URL: https://x/42''"

text \<open>Pipelines that call no tool and end with a fixed final output, or with an error.\<close>

definition answering :: "string \<Rightarrow> pipeline" where
  "answering finalOutput = (\<lambda>input runID. ([], Inr finalOutput))"

definition failing :: "error \<Rightarrow> pipeline" where
  "failing err = (\<lambda>input runID. ([], Inl err))"


section \<open>Properties of the string functions\<close>

declare digits.simps [simp del]
declare TrimLeftSpace.simps [simp del]
declare TrimRightSpace.simps [simp del]

lemma strings_Index_lower: "- 1 \<le> strings_Index s sub"
  by (induction s) (auto simp: Let_def)

text \<open>\<open>strings.Index\<close> answers \<open>-1\<close> exactly when the text does not occur.\<close>

lemma strings_Index_absent: "strings_Index s sub = - 1 \<longleftrightarrow> \<not> sublist sub s"
proof (induction s)
  case Nil
  show ?case by simp
next
  case (Cons c cs)
  have "- 1 \<le> strings_Index cs sub" by (rule strings_Index_lower)
  with Cons show ?case
    by (auto simp: Let_def sublist_Cons_right)
qed

lemma strings_Index_upper:
  "strings_Index s sub \<noteq> - 1 \<Longrightarrow> strings_Index s sub + int (length sub) \<le> int (length s)"
proof (induction s)
  case Nil
  then show ?case by (simp split: if_splits)
next
  case (Cons c cs)
  show ?case
  proof (cases "prefix sub (c # cs)")
    case True
    then have "length sub \<le> length (c # cs)" by (rule prefix_length_le)
    with True show ?thesis by simp
  next
    case False
    with Cons show ?thesis by (auto simp: Let_def split: if_splits)
  qed
qed

lemma strings_IndexAny_lower: "- 1 \<le> strings_IndexAny s chars"
  by (induction s) (auto simp: Let_def)

lemma strings_IndexAny_upper: "strings_IndexAny s chars \<le> int (length s)"
  by (induction s) (auto simp: Let_def)

lemma slice_first10: "10 \<le> length s \<Longrightarrow> slice s 0 10 = Returned (take 10 s)"
  by (simp add: slice_def)

lemma slice_short: "length s < 10 \<Longrightarrow> slice s 0 10 = Panic SliceBoundsOutOfRange"
  by (simp add: slice_def)

section \<open>Properties of the response synthesizer\<close>

text \<open>The two slice expressions of the scan are always within bounds: the scan returns,
  and changes nothing but \<open>IssueURL\<close>.\<close>

lemma scanURL_Returned:
  "\<exists>r. scanURL finalOutput resp = Returned r \<and> Status r = Status resp \<and> Message r = Message resp"
proof -
  define idx where "idx = strings_Index finalOutput ''URL: ''"
  have lo: "- 1 \<le> idx" unfolding idx_def by (rule strings_Index_lower)
  show ?thesis
  proof (cases "idx = - 1")
    case True
    then show ?thesis by (simp add: scanURL_def idx_def)
  next
    case found: False
    then have "idx + int (length ''URL: '') \<le> int (length finalOutput)"
      unfolding idx_def by (rule strings_Index_upper)
    then have up: "idx + 5 \<le> int (length finalOutput)" by simp
    define rest where "rest = drop (nat (idx + 5)) finalOutput"
    define endIdx where "endIdx = strings_IndexAny rest '' \<newline>''"
    have first: "slice finalOutput (idx + 5) (int (length finalOutput)) = Returned rest"
      using lo up found by (simp add: rest_def slice_def)
    have len: "int (length rest) = int (length finalOutput) - (idx + 5)"
      using lo up by (simp add: rest_def)
    have elo: "- 1 \<le> endIdx" unfolding endIdx_def by (rule strings_IndexAny_lower)
    have eup: "endIdx \<le> int (length rest)" unfolding endIdx_def by (rule strings_IndexAny_upper)
    show ?thesis
    proof (cases "endIdx = - 1")
      case True
      with found first show ?thesis
        by (simp add: scanURL_def Let_def idx_def [symmetric] endIdx_def [symmetric])
    next
      case False
      with elo eup len lo up
      have "\<exists>url. slice finalOutput (idx + 5) (idx + 5 + endIdx) = Returned url"
        by (auto simp: slice_def)
      then obtain url where "slice finalOutput (idx + 5) (idx + 5 + endIdx) = Returned url" ..
      with False found first show ?thesis
        by (simp add: scanURL_def Let_def idx_def [symmetric] endIdx_def [symmetric])
    qed
  qed
qed

lemma scanURL_no_marker:
  "\<not> sublist ''URL: '' finalOutput \<Longrightarrow> scanURL finalOutput resp = Returned resp"
  by (simp add: scanURL_def strings_Index_absent [symmetric])

lemma synthesize_Returned:
  "\<exists>r. synthesize finalOutput = Returned r \<and> Status r = ''success'' \<and> Message r = finalOutput"
proof -
  let ?resp = "\<lparr>Status = ''success'', Message = finalOutput, IssueURL = ''''\<rparr>"
  from scanURL_Returned [of finalOutput ?resp]
  show ?thesis by (auto simp: synthesize_def Let_def)
qed

lemma synthesize_no_marker:
  "\<not> sublist ''URL: '' finalOutput \<Longrightarrow>
   synthesize finalOutput = Returned \<lparr>Status = ''success'', Message = finalOutput, IssueURL = ''''\<rparr>"
  by (simp add: synthesize_def Let_def scanURL_no_marker)

lemma synthesize_createdAnswer:
  "synthesize createdAnswer =
     Returned \<lparr>Status = ''success'', Message = createdAnswer, IssueURL = ''https://x/42''\<rparr>"
  by code_simp

section \<open>Properties of the handler\<close>

text \<open>The handler on a decoded request whose log has at least ten bytes: the pipeline runs
  once, on the log and the run identifier cut from it.\<close>

lemma handleProcessError_run:
  assumes "10 \<le> length (ErrorLog req)"
    and "Run (ErrorLog req) (''run-id'' @ take 10 (ErrorLog req)) = (calls, result)"
  shows "handleProcessError Run (Inr req) =
     (PipelineRun (ErrorLog req) (''run-id'' @ take 10 (ErrorLog req)) # map Gateway calls,
      case result of
        Inl err \<Rightarrow> Returned (http_Error (''Agent failed to process error: '' @ err) 500)
      | Inr finalOutput \<Rightarrow>
          (case synthesize finalOutput of
             Panic p \<Rightarrow> Panic p
           | Returned resp \<Rightarrow>
               Returned \<lparr>statusCode = 200, contentType = ''application/json'',
                         payload = JSONObject (json_Encode resp)\<rparr>))"
proof -
  from assms(1) have "ErrorLog req \<noteq> []" by auto
  with assms show ?thesis
    by (cases result) (simp_all add: handleProcessError_def slice_first10)
qed

text \<open>A log of one to nine bytes ends the handler in a panic before the pipeline runs;
  a log of ten bytes or more is always answered, by 200 or by 500.\<close>

lemma panic_below_ten_bytes:
  "ErrorLog req \<noteq> [] \<Longrightarrow> length (ErrorLog req) < 10 \<Longrightarrow>
   handleProcessError Run (Inr req) = ([], Panic SliceBoundsOutOfRange)"
  by (simp add: handleProcessError_def slice_short)

lemma answer_from_ten_bytes:
  assumes "10 \<le> length (ErrorLog req)"
  shows "\<exists>r. snd (handleProcessError Run (Inr req)) = Returned r
            \<and> (statusCode r = 200 \<or> statusCode r = 500)"
proof -
  obtain calls result
    where run: "Run (ErrorLog req) (''run-id'' @ take 10 (ErrorLog req)) = (calls, result)"
    by (cases "Run (ErrorLog req) (''run-id'' @ take 10 (ErrorLog req))")
  show ?thesis
  proof (cases result)
    case (Inl err)
    with handleProcessError_run [where Run = Run, OF assms run] show ?thesis
      by (simp add: http_Error_def)
  next
    case (Inr finalOutput)
    from synthesize_Returned obtain resp where "synthesize finalOutput = Returned resp" by blast
    with Inr handleProcessError_run [where Run = Run, OF assms run] show ?thesis by simp
  qed
qed

text \<open>An event \<open>PipelineRun\<close> among the events of the handler tells that the request was
  decoded, and which log it carried.\<close>

lemma PipelineRun_event:
  assumes "PipelineRun input runID \<in> set (fst (handleProcessError Run decoded))"
  shows "\<exists>req. decoded = Inr req \<and> 10 \<le> length (ErrorLog req) \<and> input = ErrorLog req
            \<and> runID = ''run-id'' @ take 10 (ErrorLog req)"
proof (cases decoded)
  case (Inl err)
  with assms show ?thesis by (simp add: handleProcessError_def)
next
  case (Inr req)
  show ?thesis
  proof (cases "10 \<le> length (ErrorLog req)")
    case True
    obtain calls result
      where run: "Run (ErrorLog req) (''run-id'' @ take 10 (ErrorLog req)) = (calls, result)"
      by (cases "Run (ErrorLog req) (''run-id'' @ take 10 (ErrorLog req))")
    from assms Inr True handleProcessError_run [where Run = Run, OF True run] show ?thesis by auto
  next
    case False
    with assms Inr show ?thesis
      by (cases "ErrorLog req = []") (simp_all add: handleProcessError_def slice_short)
  qed
qed

section \<open>Properties of the tool executors\<close>


lemma collectLabels_append: "collectLabels labels xs = labels @ collectLabels [] xs"
proof (induction xs arbitrary: labels)
  case Nil
  show ?case by simp
next
  case (Cons x xs)
  show ?case
  proof (cases x)
    case (AnyString s)
    have "collectLabels (labels @ [s]) xs = (labels @ [s]) @ collectLabels [] xs"
      by (rule Cons.IH)
    moreover have "collectLabels [s] xs = [s] @ collectLabels [] xs"
      by (rule Cons.IH)
    ultimately show ?thesis using AnyString by simp
  next
    case AnyNil
    with Cons.IH [of labels] show ?thesis by simp
  next
    case (AnyBool b)
    with Cons.IH [of labels] show ?thesis by simp
  next
    case (AnyNumber n)
    with Cons.IH [of labels] show ?thesis by simp
  next
    case (AnySlice ys)
    with Cons.IH [of labels] show ?thesis by simp
  next
    case (AnyMap m)
    with Cons.IH [of labels] show ?thesis by simp
  qed
qed

text \<open>The labels collected are the entries of \<open>labelsRaw\<close> that are strings, in their
  order.\<close>

lemma collectLabels_strings:
  "map AnyString (collectLabels [] xs) = filter (\<lambda>x. assert_string (Some x) \<noteq> None) xs"
proof (induction xs)
  case Nil
  show ?case by simp
next
  case (Cons x xs)
  show ?case
  proof (cases x)
    case (AnyString s)
    have "collectLabels [s] xs = [s] @ collectLabels [] xs" by (rule collectLabels_append)
    with AnyString Cons show ?thesis by simp
  qed (simp_all add: Cons)
qed

lemma collectLabels_all_strings: "collectLabels [] (map AnyString ls) = ls"
proof (induction ls)
  case Nil
  show ?case by simp
next
  case (Cons l ls)
  have "collectLabels [l] (map AnyString ls) = [l] @ collectLabels [] (map AnyString ls)"
    by (rule collectLabels_append)
  with Cons show ?case by simp
qed

text \<open>With a title and a body that are strings, the executor calls the gateway once, with
  the labels collected.\<close>

lemma createGithubIssues_calls:
  assumes "assert_string (args ''title'') = Some title"
    and "assert_string (args ''body'') = Some body"
  shows "fst (createGithubIssues g args) =
     [Create (ghOwner g) (ghRepo g)
        \<lparr>Title = title, Body = body,
         Labels = collectLabels []
           (case assert_slice (args ''labels'') of None \<Rightarrow> [] | Some xs \<Rightarrow> xs)\<rparr>]"
  using assms by (simp add: createGithubIssues_def Let_def split: sum.split)

lemma assert_string_None: "assert_string v = None \<longleftrightarrow> (\<forall>s. v \<noteq> Some (AnyString s))"
  by (cases v rule: assert_string.cases) simp_all

lemma assert_slice_None: "assert_slice v = None \<longleftrightarrow> (\<forall>xs. v \<noteq> Some (AnySlice xs))"
  by (cases v rule: assert_slice.cases) simp_all

text \<open>When the pipeline has run and ended with a final output, the handler answers with
  what the synthesizer makes of that output.\<close>

lemma handleProcessError_success:
  assumes "PipelineRun input runID \<in> set (fst (handleProcessError Run decoded))"
    and "Run input runID = (calls, Inr finalOutput)"
  shows "snd (handleProcessError Run decoded) =
     (case synthesize finalOutput of
        Panic p \<Rightarrow> Panic p
      | Returned resp \<Rightarrow>
          Returned \<lparr>statusCode = 200, contentType = ''application/json'',
                    payload = JSONObject (json_Encode resp)\<rparr>)"
proof -
  from PipelineRun_event [OF assms(1)] obtain req
    where req: "decoded = Inr req" "10 \<le> length (ErrorLog req)" "input = ErrorLog req"
      "runID = ''run-id'' @ take 10 (ErrorLog req)"
    by blast
  from assms(2) req
  have "Run (ErrorLog req) (''run-id'' @ take 10 (ErrorLog req)) = (calls, Inr finalOutput)"
    by simp
  from handleProcessError_run [where Run = Run, OF req(2) this] req(1)
  show ?thesis by simp
qed

section \<open>The claims\<close>

text \<open>
  Claim C1: every request whose \<open>errorLog\<close> is non-empty is processed to completion, to
  a 200 or a 500 response, whatever the length of the log. The handler cuts the run
  identifier out of the first ten bytes of the log, so the five-byte log \<open>short\<close> ends it
  in a slice panic, before the pipeline is called and with no response written.
\<close>

theorem handleProcessError_short_log_panics:
  "handleProcessError Run (Inr \<lparr>ErrorLog = ''short''\<rparr>) = ([], Panic SliceBoundsOutOfRange)"
  by (simp add: handleProcessError_def slice_def)

text \<open>
  Claim C2: a final answer that is the search tool's output for one match at
  \<open>https://x/42\<close> gets \<open>issue_url = "https://x/42"\<close>. The search tool writes the count into
  its first line, \<open>Found 1 existing issues:\<close>, which contains neither of the two markers
  the handler looks for: on that answer the response carries the message and no
  \<open>issue_url\<close>.
\<close>

theorem oneMatchAnswer_no_issue_url:
  "snd (searchGithubIssues mockOneMatch [''query'' \<mapsto> AnyString ''nil pointer''])
     = Returned (oneMatchAnswer, None)
   \<and> strings_Contains oneMatchAnswer ''GitHub issue created successfully!'' = False
   \<and> strings_Contains oneMatchAnswer ''Found existing issues:'' = False
   \<and> snd (handleProcessError (answering oneMatchAnswer)
            (Inr \<lparr>ErrorLog = ''nil pointer in db.go:54''\<rparr>))
     = Returned \<lparr>statusCode = 200, contentType = ''application/json'',
                 payload = JSONObject [(''status'', ''success''), (''message'', oneMatchAnswer)]\<rparr>"
  by code_simp

text \<open>
  Claim C3, as stated: the executor of \<open>create_github_issue\<close> drops every label outside
  \<open>bug\<close>, \<open>llm created\<close>, \<open>enhancement\<close>, so that the labels \<open>bug\<close>, \<open>typo-unlisted\<close> reach
  the gateway as \<open>bug\<close> alone. The executor does not compare labels with the enumeration:
  both labels reach the gateway.
\<close>

theorem createGithubIssues_unlisted_label_counterexample:
  "fst (createGithubIssues mockNoMatch
          [''title'' \<mapsto> AnyString ''T'', ''body'' \<mapsto> AnyString ''B'',
           ''labels'' \<mapsto> AnySlice [AnyString ''bug'', AnyString ''typo-unlisted'']])
     = [Create ''acme'' ''app'' \<lparr>Title = ''T'', Body = ''B'', Labels = [''bug'', ''typo-unlisted'']\<rparr>]
   \<and> ''typo-unlisted'' \<notin> set labelsEnum"
  by (simp add: createGithubIssues_def mockNoMatch_def labelsEnum_def)

text \<open>
  Claim C3, amended: when title and body are strings and every entry of the labels array
  is a string, the label list given to the gateway is exactly the list supplied, in the
  same order, whether or not a label belongs to the enumeration.
\<close>

theorem createGithubIssues_labels_passed:
  assumes "assert_string (args ''title'') = Some title"
    and "assert_string (args ''body'') = Some body"
    and "args ''labels'' = Some (AnySlice (map AnyString labels))"
  shows "fst (createGithubIssues g args) =
     [Create (ghOwner g) (ghRepo g) \<lparr>Title = title, Body = body, Labels = labels\<rparr>]"
  using createGithubIssues_calls [OF assms(1,2), of g] assms(3)
  by (simp add: collectLabels_all_strings)

theorem createGithubIssues_labels_passed_witness:
  "assert_string
     ([''title'' \<mapsto> AnyString ''T'', ''body'' \<mapsto> AnyString ''B'',
       ''labels'' \<mapsto> AnySlice (map AnyString [''bug'', ''typo-unlisted''])] ''title'') = Some ''T''
   \<and> fst (createGithubIssues mockNoMatch
          [''title'' \<mapsto> AnyString ''T'', ''body'' \<mapsto> AnyString ''B'',
           ''labels'' \<mapsto> AnySlice (map AnyString [''bug'', ''typo-unlisted''])])
     = [Create ''acme'' ''app'' \<lparr>Title = ''T'', Body = ''B'', Labels = [''bug'', ''typo-unlisted'']\<rparr>]"
proof -
  let ?args = "[''title'' \<mapsto> AnyString ''T'', ''body'' \<mapsto> AnyString ''B'',
                ''labels'' \<mapsto> AnySlice (map AnyString [''bug'', ''typo-unlisted''])]"
  have t: "assert_string (?args ''title'') = Some ''T''" by simp
  have b: "assert_string (?args ''body'') = Some ''B''" by simp
  have l: "?args ''labels'' = Some (AnySlice (map AnyString [''bug'', ''typo-unlisted'']))" by simp
  have g: "ghOwner mockNoMatch = ''acme''" "ghRepo mockNoMatch = ''app''"
    by (simp_all add: mockNoMatch_def)
  have "fst (createGithubIssues mockNoMatch ?args)
          = [Create ''acme'' ''app'' \<lparr>Title = ''T'', Body = ''B'', Labels = [''bug'', ''typo-unlisted'']\<rparr>]"
    using createGithubIssues_labels_passed [OF t b l, of mockNoMatch] unfolding g .
  with t show ?thesis by blast
qed

text \<open>
  Claim C4, as stated: when title or body is absent or an empty string, the executor
  fails with an argument error and does not call the gateway. An empty title is a
  string, and passes the type assertion: the gateway is asked to create an issue with
  the empty title.
\<close>

theorem createGithubIssues_empty_title_counterexample:
  "createGithubIssues mockNoMatch [''title'' \<mapsto> AnyString '''', ''body'' \<mapsto> AnyString ''B'']
     = ([Create ''acme'' ''app'' \<lparr>Title = '''', Body = ''B'', Labels = []\<rparr>],
        Returned (''GitHub issue created successfully! Title: \"\", URL: https://x/42'', None))"
  by (simp add: createGithubIssues_def mockNoMatch_def)

text \<open>
  Claim C4, amended: when title or body is absent or is not a string, the executor
  returns the empty text with an error that names the argument, and makes no call on the
  gateway.
\<close>

theorem createGithubIssues_missing_argument:
  assumes "(\<forall>s. args ''title'' \<noteq> Some (AnyString s)) \<or> (\<forall>s. args ''body'' \<noteq> Some (AnyString s))"
  shows "createGithubIssues g args =
     ([], Returned ('''',
        Some (if (\<forall>s. args ''title'' \<noteq> Some (AnyString s))
              then ''missing or invalid 'title' argument for create_github_issue''
              else ''missing or invalid 'body' argument for create_github_issue'')))"
proof (cases "assert_string (args ''title'')")
  case None
  then have "\<forall>s. args ''title'' \<noteq> Some (AnyString s)"
    using assert_string_None [of "args ''title''"] by simp
  with None show ?thesis by (simp add: createGithubIssues_def)
next
  case (Some title)
  then have t: "\<not> (\<forall>s. args ''title'' \<noteq> Some (AnyString s))"
    using assert_string_None [of "args ''title''"] by simp
  with assms have "\<forall>s. args ''body'' \<noteq> Some (AnyString s)" by blast
  then have "assert_string (args ''body'') = None"
    using assert_string_None [of "args ''body''"] by simp
  with Some t show ?thesis by (simp add: createGithubIssues_def)
qed

theorem createGithubIssues_missing_argument_witness:
  "createGithubIssues mockNoMatch [''body'' \<mapsto> AnyString ''B'']
     = ([], Returned ('''', Some ''missing or invalid 'title' argument for create_github_issue''))
   \<and> createGithubIssues mockNoMatch [''title'' \<mapsto> AnyString ''T'', ''body'' \<mapsto> AnyNumber 7]
     = ([], Returned ('''', Some ''missing or invalid 'body' argument for create_github_issue''))"
proof -
  let ?a = "[''body'' \<mapsto> AnyString ''B'']"
  let ?b = "[''title'' \<mapsto> AnyString ''T'', ''body'' \<mapsto> AnyNumber 7]"
  have ha: "(\<forall>s. ?a ''title'' \<noteq> Some (AnyString s)) \<or> (\<forall>s. ?a ''body'' \<noteq> Some (AnyString s))"
    by simp
  have hb: "(\<forall>s. ?b ''title'' \<noteq> Some (AnyString s)) \<or> (\<forall>s. ?b ''body'' \<noteq> Some (AnyString s))"
    by simp
  have ca: "\<forall>s. ?a ''title'' \<noteq> Some (AnyString s)" by simp
  have cb: "\<not> (\<forall>s. ?b ''title'' \<noteq> Some (AnyString s))" by simp
  have "createGithubIssues mockNoMatch ?a
          = ([], Returned ('''', Some ''missing or invalid 'title' argument for create_github_issue''))"
    using createGithubIssues_missing_argument [OF ha, of mockNoMatch] unfolding if_P [OF ca] .
  moreover have "createGithubIssues mockNoMatch ?b
          = ([], Returned ('''', Some ''missing or invalid 'body' argument for create_github_issue''))"
    using createGithubIssues_missing_argument [OF hb, of mockNoMatch] unfolding if_not_P [OF cb] .
  ultimately show ?thesis by blast
qed

text \<open>
  Claim C5: for the final answer
  \<open>GitHub issue created successfully! Title: "X", URL: https://x/42\<close> the response carries
  \<open>issue_url = "https://x/42"\<close>, and for every final answer in which \<open>"URL: "\<close> does not
  occur the response has no \<open>issue_url\<close>. Both are stated of the response the handler
  writes once the pipeline has run and ended with that answer.
\<close>

theorem issue_url_extraction:
  assumes "PipelineRun input runID \<in> set (fst (handleProcessError Run decoded))"
    and "Run input runID = (calls, Inr finalOutput)"
  shows "(finalOutput = createdAnswer \<longrightarrow>
            snd (handleProcessError Run decoded) =
              Returned \<lparr>statusCode = 200, contentType = ''application/json'',
                payload = JSONObject [(''status'', ''success''), (''message'', createdAnswer),
                                      (''issue_url'', ''https://x/42'')]\<rparr>)
       \<and> (\<not> sublist ''URL: '' finalOutput \<longrightarrow>
            snd (handleProcessError Run decoded) =
              Returned \<lparr>statusCode = 200, contentType = ''application/json'',
                payload = JSONObject [(''status'', ''success''), (''message'', finalOutput)]\<rparr>)"
proof (intro conjI impI)
  assume "finalOutput = createdAnswer"
  with handleProcessError_success [OF assms] synthesize_createdAnswer
  show "snd (handleProcessError Run decoded) =
          Returned \<lparr>statusCode = 200, contentType = ''application/json'',
            payload = JSONObject [(''status'', ''success''), (''message'', createdAnswer),
                                  (''issue_url'', ''https://x/42'')]\<rparr>"
    by (simp add: json_Encode_def)
next
  assume "\<not> sublist ''URL: '' finalOutput"
  then have "synthesize finalOutput =
      Returned \<lparr>Status = ''success'', Message = finalOutput, IssueURL = ''''\<rparr>"
    by (rule synthesize_no_marker)
  with handleProcessError_success [OF assms]
  show "snd (handleProcessError Run decoded) =
          Returned \<lparr>statusCode = 200, contentType = ''application/json'',
            payload = JSONObject [(''status'', ''success''), (''message'', finalOutput)]\<rparr>"
    by (simp add: json_Encode_def)
qed

theorem issue_url_extraction_witness:
  "PipelineRun ''nil pointer in db.go:54'' ''run-idnil pointe''
     \<in> set (fst (handleProcessError (answering createdAnswer)
                   (Inr \<lparr>ErrorLog = ''nil pointer in db.go:54''\<rparr>)))
   \<and> snd (handleProcessError (answering createdAnswer)
            (Inr \<lparr>ErrorLog = ''nil pointer in db.go:54''\<rparr>)) =
       Returned \<lparr>statusCode = 200, contentType = ''application/json'',
         payload = JSONObject [(''status'', ''success''), (''message'', createdAnswer),
                               (''issue_url'', ''https://x/42'')]\<rparr>
   \<and> \<not> sublist ''URL: '' ''The issue tracker is unreachable.''
   \<and> snd (handleProcessError (answering ''The issue tracker is unreachable.'')
            (Inr \<lparr>ErrorLog = ''nil pointer in db.go:54''\<rparr>)) =
       Returned \<lparr>statusCode = 200, contentType = ''application/json'',
         payload = JSONObject [(''status'', ''success''),
                               (''message'', ''The issue tracker is unreachable.'')]\<rparr>"
proof -
  let ?d = "Inr \<lparr>ErrorLog = ''nil pointer in db.go:54''\<rparr> :: error + ErrorLogRequest"
  let ?other = "''The issue tracker is unreachable.''"
  have e1: "PipelineRun ''nil pointer in db.go:54'' ''run-idnil pointe''
              \<in> set (fst (handleProcessError (answering createdAnswer) ?d))"
    by (simp add: handleProcessError_def slice_def answering_def)
  have r1: "answering createdAnswer ''nil pointer in db.go:54'' ''run-idnil pointe''
              = ([], Inr createdAnswer)"
    by (simp add: answering_def)
  have e2: "PipelineRun ''nil pointer in db.go:54'' ''run-idnil pointe''
              \<in> set (fst (handleProcessError (answering ?other) ?d))"
    by (simp add: handleProcessError_def slice_def answering_def)
  have r2: "answering ?other ''nil pointer in db.go:54'' ''run-idnil pointe'' = ([], Inr ?other)"
    by (simp add: answering_def)
  have "strings_Index ?other ''URL: '' = - 1" by code_simp
  then have n: "\<not> sublist ''URL: '' ?other" by (rule iffD1 [OF strings_Index_absent])
  from issue_url_extraction [OF e1 r1]
  have c1: "snd (handleProcessError (answering createdAnswer) ?d) =
       Returned \<lparr>statusCode = 200, contentType = ''application/json'',
         payload = JSONObject [(''status'', ''success''), (''message'', createdAnswer),
                               (''issue_url'', ''https://x/42'')]\<rparr>"
    by blast
  from issue_url_extraction [OF e2 r2] n
  have c2: "snd (handleProcessError (answering ?other) ?d) =
       Returned \<lparr>statusCode = 200, contentType = ''application/json'',
         payload = JSONObject [(''status'', ''success''), (''message'', ?other)]\<rparr>"
    by blast
  from e1 c1 n c2 show ?thesis by blast
qed







text \<open>
  Claim C9: every JSON response of the handler has \<open>status\<close> equal to \<open>success\<close>; the value
  \<open>error\<close> is never produced, since every failure path (a body that does not decode, an
  empty \<open>error_log\<close>, a failed pipeline run) answers through \<open>http.Error\<close>, with a
  plain-text body and the status 400 or 500.
\<close>

theorem json_status_success:
  "(snd (handleProcessError Run decoded) = Returned r \<and> payload r = JSONObject members
      \<longrightarrow> map_of members ''status'' = Some ''success'' \<and> statusCode r = 200)
   \<and> ((\<exists>err. decoded = Inl err) \<or> (\<exists>req. decoded = Inr req \<and> ErrorLog req = '''')
        \<or> (PipelineRun input runID \<in> set (fst (handleProcessError Run decoded))
             \<and> Run input runID = (calls, Inl err))
      \<longrightarrow> (\<exists>code msg. snd (handleProcessError Run decoded) =
                 Returned \<lparr>statusCode = code, contentType = ''text/plain; charset=utf-8'',
                           payload = PlainText msg\<rparr>
               \<and> (code = 400 \<or> code = 500)))"
proof (intro conjI impI)
  assume a: "snd (handleProcessError Run decoded) = Returned r \<and> payload r = JSONObject members"
  have both: "map_of members ''status'' = Some ''success'' \<and> statusCode r = 200"
  proof (cases decoded)
    case (Inl e)
    with a show ?thesis by (auto simp: handleProcessError_def http_Error_def)
  next
    case (Inr req)
    show ?thesis
    proof (cases "10 \<le> length (ErrorLog req)")
      case False
      with a Inr show ?thesis
        by (cases "ErrorLog req = []")
          (auto simp: handleProcessError_def http_Error_def slice_short)
    next
      case True
      obtain cs result
        where run: "Run (ErrorLog req) (''run-id'' @ take 10 (ErrorLog req)) = (cs, result)"
        by (cases "Run (ErrorLog req) (''run-id'' @ take 10 (ErrorLog req))")
      note h = handleProcessError_run [where Run = Run, OF True run]
      show ?thesis
      proof (cases result)
        case (Inl e)
        with a Inr h show ?thesis by (auto simp: http_Error_def)
      next
        case out: (Inr finalOutput)
        from synthesize_Returned obtain resp
          where resp: "synthesize finalOutput = Returned resp" "Status resp = ''success''"
          by blast
        have "map_of (json_Encode resp) ''status'' = Some (Status resp)"
          by (simp add: json_Encode_def)
        with a Inr h out resp show ?thesis by auto
      qed
    qed
  qed
  from both show "map_of members ''status'' = Some ''success''" ..
  from both show "statusCode r = 200" ..
next
  assume "(\<exists>err. decoded = Inl err) \<or> (\<exists>req. decoded = Inr req \<and> ErrorLog req = '''')
        \<or> (PipelineRun input runID \<in> set (fst (handleProcessError Run decoded))
             \<and> Run input runID = (calls, Inl err))"
  then consider
      (bad) "(\<exists>err. decoded = Inl err) \<or> (\<exists>req. decoded = Inr req \<and> ErrorLog req = '''')"
    | (failed) "PipelineRun input runID \<in> set (fst (handleProcessError Run decoded))"
        "Run input runID = (calls, Inl err)"
    by blast
  then show "\<exists>code msg. snd (handleProcessError Run decoded) =
                 Returned \<lparr>statusCode = code, contentType = ''text/plain; charset=utf-8'',
                           payload = PlainText msg\<rparr>
               \<and> (code = 400 \<or> code = 500)"
  proof cases
    case bad
    then show ?thesis by (auto simp: handleProcessError_def http_Error_def)
  next
    case failed
    from PipelineRun_event [OF failed(1)] obtain req
      where req: "decoded = Inr req" "10 \<le> length (ErrorLog req)" "input = ErrorLog req"
        "runID = ''run-id'' @ take 10 (ErrorLog req)"
      by blast
    from failed(2) req
    have "Run (ErrorLog req) (''run-id'' @ take 10 (ErrorLog req)) = (calls, Inl err)"
      by simp
    from handleProcessError_run [where Run = Run, OF req(2) this] req(1)
    show ?thesis by (simp add: http_Error_def)
  qed
qed

theorem json_status_success_witness:
  "snd (handleProcessError (answering createdAnswer)
          (Inr \<lparr>ErrorLog = ''nil pointer in db.go:54''\<rparr>)) =
     Returned \<lparr>statusCode = 200, contentType = ''application/json'',
       payload = JSONObject [(''status'', ''success''), (''message'', createdAnswer),
                             (''issue_url'', ''https://x/42'')]\<rparr>
   \<and> map_of [(''status'', ''success''), (''message'', createdAnswer),
              (''issue_url'', ''https://x/42'')] ''status'' = Some ''success''
   \<and> PipelineRun ''nil pointer in db.go:54'' ''run-idnil pointe''
       \<in> set (fst (handleProcessError (failing ''engine unreachable'')
                     (Inr \<lparr>ErrorLog = ''nil pointer in db.go:54''\<rparr>)))
   \<and> failing ''engine unreachable'' ''nil pointer in db.go:54'' ''run-idnil pointe''
       = ([], Inl ''engine unreachable'')
   \<and> (\<exists>code msg.
         snd (handleProcessError (failing ''engine unreachable'')
                (Inr \<lparr>ErrorLog = ''nil pointer in db.go:54''\<rparr>)) =
           Returned \<lparr>statusCode = code, contentType = ''text/plain; charset=utf-8'',
                     payload = PlainText msg\<rparr>
         \<and> (code = 400 \<or> code = 500))"
proof -
  let ?d = "Inr \<lparr>ErrorLog = ''nil pointer in db.go:54''\<rparr> :: error + ErrorLogRequest"
  let ?r = "\<lparr>statusCode = 200, contentType = ''application/json'',
       payload = JSONObject [(''status'', ''success''), (''message'', createdAnswer),
                             (''issue_url'', ''https://x/42'')]\<rparr>"
  let ?members = "[(''status'', ''success''), (''message'', createdAnswer),
                   (''issue_url'', ''https://x/42'')]"
  have ok: "snd (handleProcessError (answering createdAnswer) ?d) = Returned ?r"
    by (simp add: handleProcessError_def slice_def answering_def synthesize_createdAnswer
        json_Encode_def)
  have p: "payload ?r = JSONObject ?members" by simp
  from json_status_success [of "answering createdAnswer" ?d ?r ?members] ok p
  have c1: "map_of ?members ''status'' = Some ''success''" by blast
  have e: "PipelineRun ''nil pointer in db.go:54'' ''run-idnil pointe''
              \<in> set (fst (handleProcessError (failing ''engine unreachable'') ?d))"
    by (simp add: handleProcessError_def slice_def failing_def)
  have f: "failing ''engine unreachable'' ''nil pointer in db.go:54'' ''run-idnil pointe''
              = ([], Inl ''engine unreachable'')"
    by (simp add: failing_def)
  from json_status_success [of "failing ''engine unreachable''" ?d _ _
      "''nil pointer in db.go:54''" "''run-idnil pointe''" "[]" "''engine unreachable''"] e f
  have c2: "\<exists>code msg.
         snd (handleProcessError (failing ''engine unreachable'') ?d) =
           Returned \<lparr>statusCode = code, contentType = ''text/plain; charset=utf-8'',
                     payload = PlainText msg\<rparr>
         \<and> (code = 400 \<or> code = 500)"
    by blast
  from ok c1 e f c2 show ?thesis by blast
qed

text \<open>
  Claim C10: when the argument \<open>labels\<close> is absent or is not an array, the executor of
  \<open>create_github_issue\<close> does not fail on it: it calls the gateway with the empty label
  list, exactly as it does for an empty array; and from an array it passes on the entries
  that are strings, in their order, and drops every other entry. Title and body are
  strings, as the executor requires before it looks at the labels.
\<close>

theorem createGithubIssues_labels_optional:
  assumes "assert_string (args ''title'') = Some title"
    and "assert_string (args ''body'') = Some body"
  shows "((\<forall>xs. args ''labels'' \<noteq> Some (AnySlice xs)) \<longrightarrow>
            fst (createGithubIssues g args) =
              [Create (ghOwner g) (ghRepo g) \<lparr>Title = title, Body = body, Labels = []\<rparr>]
            \<and> createGithubIssues g args = createGithubIssues g (args(''labels'' \<mapsto> AnySlice [])))
       \<and> (args ''labels'' = Some (AnySlice xs) \<longrightarrow>
            (\<exists>labels.
               fst (createGithubIssues g args) =
                 [Create (ghOwner g) (ghRepo g) \<lparr>Title = title, Body = body, Labels = labels\<rparr>]
               \<and> map AnyString labels = filter (\<lambda>x. assert_string (Some x) \<noteq> None) xs))"
proof (intro conjI impI)
  assume "\<forall>xs. args ''labels'' \<noteq> Some (AnySlice xs)"
  then have none: "assert_slice (args ''labels'') = None"
    using assert_slice_None [of "args ''labels''"] by simp
  with createGithubIssues_calls [OF assms, of g]
  show "fst (createGithubIssues g args) =
          [Create (ghOwner g) (ghRepo g) \<lparr>Title = title, Body = body, Labels = []\<rparr>]"
    by simp
  from assms none
  show "createGithubIssues g args = createGithubIssues g (args(''labels'' \<mapsto> AnySlice []))"
    by (simp add: createGithubIssues_def)
next
  assume "args ''labels'' = Some (AnySlice xs)"
  with createGithubIssues_calls [OF assms, of g]
  have "fst (createGithubIssues g args) =
          [Create (ghOwner g) (ghRepo g)
             \<lparr>Title = title, Body = body, Labels = collectLabels [] xs\<rparr>]"
    by simp
  with collectLabels_strings [of xs]
  show "\<exists>labels.
          fst (createGithubIssues g args) =
            [Create (ghOwner g) (ghRepo g) \<lparr>Title = title, Body = body, Labels = labels\<rparr>]
          \<and> map AnyString labels = filter (\<lambda>x. assert_string (Some x) \<noteq> None) xs"
    by blast
qed

theorem createGithubIssues_labels_optional_witness:
  "fst (createGithubIssues mockNoMatch [''title'' \<mapsto> AnyString ''T'', ''body'' \<mapsto> AnyString ''B''])
     = [Create (ghOwner mockNoMatch) (ghRepo mockNoMatch)
          \<lparr>Title = ''T'', Body = ''B'', Labels = []\<rparr>]
   \<and> fst (createGithubIssues mockNoMatch
            [''title'' \<mapsto> AnyString ''T'', ''body'' \<mapsto> AnyString ''B'',
             ''labels'' \<mapsto> AnyString ''bug''])
     = [Create (ghOwner mockNoMatch) (ghRepo mockNoMatch)
          \<lparr>Title = ''T'', Body = ''B'', Labels = []\<rparr>]
   \<and> (\<exists>labels.
         fst (createGithubIssues mockNoMatch
                [''title'' \<mapsto> AnyString ''T'', ''body'' \<mapsto> AnyString ''B'',
                 ''labels'' \<mapsto> AnySlice [AnyString ''bug'', AnyNumber 7, AnyString ''llm created'']])
           = [Create (ghOwner mockNoMatch) (ghRepo mockNoMatch)
                \<lparr>Title = ''T'', Body = ''B'', Labels = labels\<rparr>]
         \<and> map AnyString labels =
             filter (\<lambda>x. assert_string (Some x) \<noteq> None)
               [AnyString ''bug'', AnyNumber 7, AnyString ''llm created''])"
proof -
  let ?absent = "[''title'' \<mapsto> AnyString ''T'', ''body'' \<mapsto> AnyString ''B'']"
  let ?text = "[''title'' \<mapsto> AnyString ''T'', ''body'' \<mapsto> AnyString ''B'',
                ''labels'' \<mapsto> AnyString ''bug'']"
  let ?xs = "[AnyString ''bug'', AnyNumber 7, AnyString ''llm created'']"
  let ?mixed = "[''title'' \<mapsto> AnyString ''T'', ''body'' \<mapsto> AnyString ''B'',
                 ''labels'' \<mapsto> AnySlice ?xs]"
  have t1: "assert_string (?absent ''title'') = Some ''T''" by simp
  have b1: "assert_string (?absent ''body'') = Some ''B''" by simp
  have n1: "\<forall>xs. ?absent ''labels'' \<noteq> Some (AnySlice xs)" by simp
  have t2: "assert_string (?text ''title'') = Some ''T''" by simp
  have b2: "assert_string (?text ''body'') = Some ''B''" by simp
  have n2: "\<forall>xs. ?text ''labels'' \<noteq> Some (AnySlice xs)" by simp
  have t3: "assert_string (?mixed ''title'') = Some ''T''" by simp
  have b3: "assert_string (?mixed ''body'') = Some ''B''" by simp
  have l3: "?mixed ''labels'' = Some (AnySlice ?xs)" by simp
  from createGithubIssues_labels_optional
         [where args = "?absent" and g = mockNoMatch, OF t1 b1] n1
  have c1: "fst (createGithubIssues mockNoMatch ?absent)
              = [Create (ghOwner mockNoMatch) (ghRepo mockNoMatch)
                   \<lparr>Title = ''T'', Body = ''B'', Labels = []\<rparr>]"
    by blast
  from createGithubIssues_labels_optional
         [where args = "?text" and g = mockNoMatch, OF t2 b2] n2
  have c2: "fst (createGithubIssues mockNoMatch ?text)
              = [Create (ghOwner mockNoMatch) (ghRepo mockNoMatch)
                   \<lparr>Title = ''T'', Body = ''B'', Labels = []\<rparr>]"
    by blast
  from createGithubIssues_labels_optional
         [where args = "?mixed" and g = mockNoMatch and xs = "?xs", OF t3 b3] l3
  have c3: "\<exists>labels.
         fst (createGithubIssues mockNoMatch ?mixed)
           = [Create (ghOwner mockNoMatch) (ghRepo mockNoMatch)
                \<lparr>Title = ''T'', Body = ''B'', Labels = labels\<rparr>]
         \<and> map AnyString labels = filter (\<lambda>x. assert_string (Some x) \<noteq> None) ?xs"
    by blast
  from c1 c2 c3 show ?thesis by blast
qed

end
